theory Spec2Isabelle
  imports Complex_Main "HOL-Library.AList"
begin

section \<open>Python values handled by the service\<close>

text \<open>
  The handlers of \<^verbatim>\<open>configs/iot/app.py\<close> work on whatever \<^verbatim>\<open>request.get_json()\<close>
  returns: \<^verbatim>\<open>None\<close>, a bool, an int, a float, a str, a list or a dict. A float is
  kept by its exact value (a rational), the signed zero and the two infinities that an
  overflowing literal parses to. A str is a list of code points below 256.
  A dict is an association list in insertion order; its keys are the hashable values.
\<close>

datatype pyfloat = Finite rat | NegZero | PosInf | NegInf

datatype pykey = KNone | KBool bool | KInt int | KFloat pyfloat | KStr string

datatype pyval =
    PNone
  | PBool bool
  | PInt int
  | PFloat pyfloat
  | PStr string
  | PList "pyval list"
  | PDict "(pykey \<times> pyval) list"

type_synonym pydict = "(pykey \<times> pyval) list"

datatype py_error = TypeError | ValueError | KeyError | AttributeError

text \<open>Keys that compare equal (and hash alike) in Python: \<^verbatim>\<open>True == 1 == 1.0\<close>.\<close>

datatype key_class = CNone | CNum rat | CPosInf | CNegInf | CStr string

fun key_class_of :: "pykey \<Rightarrow> key_class" where
  "key_class_of KNone = CNone"
| "key_class_of (KBool b) = CNum (if b then 1 else 0)"
| "key_class_of (KInt i) = CNum (of_int i)"
| "key_class_of (KFloat (Finite r)) = CNum r"
| "key_class_of (KFloat NegZero) = CNum 0"
| "key_class_of (KFloat PosInf) = CPosInf"
| "key_class_of (KFloat NegInf) = CNegInf"
| "key_class_of (KStr s) = CStr s"

definition key_eq :: "pykey \<Rightarrow> pykey \<Rightarrow> bool" where
  "key_eq a b = (key_class_of a = key_class_of b)"

text \<open>\<^verbatim>\<open>hash(v)\<close>: a list or a dict is unhashable and cannot be a key.\<close>

fun as_key :: "pyval \<Rightarrow> pykey option" where
  "as_key PNone = Some KNone"
| "as_key (PBool b) = Some (KBool b)"
| "as_key (PInt i) = Some (KInt i)"
| "as_key (PFloat f) = Some (KFloat f)"
| "as_key (PStr s) = Some (KStr s)"
| "as_key (PList xs) = None"
| "as_key (PDict d) = None"

fun key_val :: "pykey \<Rightarrow> pyval" where
  "key_val KNone = PNone"
| "key_val (KBool b) = PBool b"
| "key_val (KInt i) = PInt i"
| "key_val (KFloat f) = PFloat f"
| "key_val (KStr s) = PStr s"

text \<open>\<^verbatim>\<open>bool(v)\<close>, as used by \<^verbatim>\<open>if not data\<close>.\<close>

fun truthy :: "pyval \<Rightarrow> bool" where
  "truthy PNone = False"
| "truthy (PBool b) = b"
| "truthy (PInt i) = (i \<noteq> 0)"
| "truthy (PFloat f) = (f \<noteq> Finite 0 \<and> f \<noteq> NegZero)"
| "truthy (PStr s) = (s \<noteq> [])"
| "truthy (PList xs) = (xs \<noteq> [])"
| "truthy (PDict d) = (d \<noteq> [])"

subsection \<open>dict operations\<close>

text \<open>\<^verbatim>\<open>d[k]\<close> and \<^verbatim>\<open>d.get(k)\<close>: the entry whose key equals \<open>k\<close>, if any.\<close>

fun dict_lookup :: "pydict \<Rightarrow> pykey \<Rightarrow> pyval option" where
  "dict_lookup [] k = None"
| "dict_lookup ((k', v') # d) k = (if key_eq k' k then Some v' else dict_lookup d k)"

definition dict_contains :: "pydict \<Rightarrow> pykey \<Rightarrow> bool" where
  "dict_contains d k = (dict_lookup d k \<noteq> None)"

text \<open>
  \<^verbatim>\<open>d[k] = v\<close>: an existing entry keeps its place and its key object and takes the new
  value; a new key is added at the end.
\<close>

fun dict_setitem :: "pydict \<Rightarrow> pykey \<Rightarrow> pyval \<Rightarrow> pydict" where
  "dict_setitem [] k v = [(k, v)]"
| "dict_setitem ((k', v') # d) k v =
     (if key_eq k' k then (k', v) # d else (k', v') # dict_setitem d k v)"

fun dict_setitems :: "pydict \<Rightarrow> (pykey \<times> pyval) list \<Rightarrow> pydict" where
  "dict_setitems d [] = d"
| "dict_setitems d ((k, v) # kvs) = dict_setitems (dict_setitem d k v) kvs"

text \<open>
  \<^verbatim>\<open>PySequence_Fast(item)\<close> inside \<^verbatim>\<open>dict.update\<close>: a list is taken as it is, a str
  gives its characters, a dict its keys; anything else is not iterable.
\<close>

fun sequence_fast :: "pyval \<Rightarrow> py_error + pyval list" where
  "sequence_fast (PList xs) = Inr xs"
| "sequence_fast (PStr s) = Inr (map (\<lambda>c. PStr [c]) s)"
| "sequence_fast (PDict d) = Inr (map (\<lambda>kv. key_val (fst kv)) d)"
| "sequence_fast PNone = Inl TypeError"
| "sequence_fast (PBool b) = Inl TypeError"
| "sequence_fast (PInt i) = Inl TypeError"
| "sequence_fast (PFloat f) = Inl TypeError"

text \<open>
  \<^verbatim>\<open>d.update(seq)\<close> for an argument that is not a dict: each element must be a
  sequence of length two, key then value. The elements before a bad one are already
  stored when the exception is raised.
\<close>

fun merge_from_seq2 :: "pydict \<Rightarrow> pyval list \<Rightarrow> pydict \<times> py_error option" where
  "merge_from_seq2 d [] = (d, None)"
| "merge_from_seq2 d (item # items) =
     (case sequence_fast item of
        Inl e \<Rightarrow> (d, Some e)
      | Inr fast \<Rightarrow>
          (case fast of
             [key, val] \<Rightarrow>
               (case as_key key of
                  None \<Rightarrow> (d, Some TypeError)
                | Some k \<Rightarrow> merge_from_seq2 (dict_setitem d k val) items)
           | _ \<Rightarrow> (d, Some ValueError)))"

text \<open>\<^verbatim>\<open>d.update(data)\<close>: the dict after the call and the exception raised, if any.\<close>

fun dict_update :: "pydict \<Rightarrow> pyval \<Rightarrow> pydict \<times> py_error option" where
  "dict_update d (PDict kvs) = (dict_setitems d kvs, None)"
| "dict_update d (PList xs) = merge_from_seq2 d xs"
| "dict_update d (PStr s) = merge_from_seq2 d (map (\<lambda>c. PStr [c]) s)"
| "dict_update d PNone = (d, Some TypeError)"
| "dict_update d (PBool b) = (d, Some TypeError)"
| "dict_update d (PInt i) = (d, Some TypeError)"
| "dict_update d (PFloat f) = (d, Some TypeError)"

subsection \<open>Operators applied to the request data\<close>

text \<open>\<^verbatim>\<open>needle in hay\<close> on two strs: substring test.\<close>

fun str_contains :: "string \<Rightarrow> string \<Rightarrow> bool" where
  "str_contains needle [] = (needle = [])"
| "str_contains needle (c # cs) =
     (take (length needle) (c # cs) = needle \<or> str_contains needle cs)"

text \<open>\<^verbatim>\<open>'name' in data\<close> for a str constant on the left.\<close>

fun py_contains :: "string \<Rightarrow> pyval \<Rightarrow> py_error + bool" where
  "py_contains k (PDict d) = Inr (dict_contains d (KStr k))"
| "py_contains k (PList xs) = Inr (PStr k \<in> set xs)"
| "py_contains k (PStr s) = Inr (str_contains k s)"
| "py_contains k PNone = Inl TypeError"
| "py_contains k (PBool b) = Inl TypeError"
| "py_contains k (PInt i) = Inl TypeError"
| "py_contains k (PFloat f) = Inl TypeError"

text \<open>\<^verbatim>\<open>data['name'] = v\<close>: only a dict accepts a str subscript in an assignment.\<close>

fun py_setitem :: "pyval \<Rightarrow> string \<Rightarrow> pyval \<Rightarrow> py_error + pyval" where
  "py_setitem (PDict d) k v = Inr (PDict (dict_setitem d (KStr k) v))"
| "py_setitem PNone k v = Inl TypeError"
| "py_setitem (PBool b) k v = Inl TypeError"
| "py_setitem (PInt i) k v = Inl TypeError"
| "py_setitem (PFloat f) k v = Inl TypeError"
| "py_setitem (PStr s) k v = Inl TypeError"
| "py_setitem (PList xs) k v = Inl TypeError"

text \<open>\<^verbatim>\<open>data['name']\<close>.\<close>

fun py_getitem :: "pyval \<Rightarrow> string \<Rightarrow> py_error + pyval" where
  "py_getitem (PDict d) k =
     (case dict_lookup d (KStr k) of None \<Rightarrow> Inl KeyError | Some v \<Rightarrow> Inr v)"
| "py_getitem PNone k = Inl TypeError"
| "py_getitem (PBool b) k = Inl TypeError"
| "py_getitem (PInt i) k = Inl TypeError"
| "py_getitem (PFloat f) k = Inl TypeError"
| "py_getitem (PStr s) k = Inl TypeError"
| "py_getitem (PList xs) k = Inl TypeError"

text \<open>\<^verbatim>\<open>data.get('name')\<close>: \<^verbatim>\<open>None\<close> when the key is missing.\<close>

fun py_get :: "pyval \<Rightarrow> string \<Rightarrow> py_error + pyval" where
  "py_get (PDict d) k =
     Inr (case dict_lookup d (KStr k) of None \<Rightarrow> PNone | Some v \<Rightarrow> v)"
| "py_get PNone k = Inl AttributeError"
| "py_get (PBool b) k = Inl AttributeError"
| "py_get (PInt i) k = Inl AttributeError"
| "py_get (PFloat f) k = Inl AttributeError"
| "py_get (PStr s) k = Inl AttributeError"
| "py_get (PList xs) k = Inl AttributeError"

section \<open>The state of the service\<close>

text \<open>
  The two module-level globals. \<^verbatim>\<open>device_status\<close> maps a device identifier (a str) to
  the dict that is the device's record.
\<close>

type_synonym device_map = "(string \<times> pydict) list"

record state =
  sensor_data :: "pyval list"
  device_status :: device_map

definition deg_C :: string where
  "deg_C = [CHR 0xC2, CHR 0xB0, CHR ''C'']"

definition initial_device_status :: device_map where
  "initial_device_status =
     [(''temperature_sensor'',
         [(KStr ''status'', PStr ''online''),
          (KStr ''last_reading'', PFloat (Finite (45 / 2))),
          (KStr ''unit'', PStr deg_C)]),
      (''humidity_sensor'',
         [(KStr ''status'', PStr ''online''),
          (KStr ''last_reading'', PFloat (Finite (4588042120383693 / 70368744177664))),
          (KStr ''unit'', PStr ''%'')]),
      (''motion_sensor'',
         [(KStr ''status'', PStr ''online''),
          (KStr ''last_reading'', PBool False),
          (KStr ''unit'', PStr ''boolean'')])]"

definition initial_state :: state where
  "initial_state = \<lparr>sensor_data = [], device_status = initial_device_status\<rparr>"

text \<open>\<^verbatim>\<open>v in device_status\<close>: the keys of the device map are strs.\<close>

definition in_device_status :: "pyval \<Rightarrow> device_map \<Rightarrow> py_error + bool" where
  "in_device_status v ds =
     (case as_key v of
        None \<Rightarrow> Inl TypeError
      | Some (KStr s) \<Rightarrow> Inr (map_of ds s \<noteq> None)
      | Some _ \<Rightarrow> Inr False)"

text \<open>The device map as the value handed to \<^verbatim>\<open>jsonify\<close>.\<close>

definition devices_val :: "device_map \<Rightarrow> pyval" where
  "devices_val ds = PDict (map (\<lambda>(k, d). (KStr k, PDict d)) ds)"

text \<open>
  \<^verbatim>\<open>sum(1 for d in device_status.values() if d['status'] == 'online')\<close>: a record
  without a \<^verbatim>\<open>status\<close> key raises.
\<close>

fun online_devices :: "device_map \<Rightarrow> py_error + nat" where
  "online_devices [] = Inr 0"
| "online_devices ((k, d) # ds) =
     (case dict_lookup d (KStr ''status'') of
        None \<Rightarrow> Inl KeyError
      | Some v \<Rightarrow>
          (case online_devices ds of
             Inl e \<Rightarrow> Inl e
           | Inr n \<Rightarrow> Inr (if v = PStr ''online'' then Suc n else n)))"

section \<open>Requests and responses\<close>

datatype http_method = GET | HEAD | POST | PUT

text \<open>The body of a request as the client sent it.\<close>

datatype body = NoBody | NotJson string | JsonBody pyval

text \<open>
  Modelled from the spec: Flask's \<^verbatim>\<open>request.get_json()\<close> is a library call, not under
  the sources. The spec has a body that is absent or not valid JSON reach the
  \<^verbatim>\<open>if not data\<close> test, so both parse to \<^verbatim>\<open>None\<close>; a JSON body parses to its value.
\<close>

fun get_json :: "body \<Rightarrow> pyval" where
  "get_json NoBody = PNone"
| "get_json (NotJson s) = PNone"
| "get_json (JsonBody v) = v"

record request =
  req_method :: http_method
  req_body :: body

text \<open>
  What a handler reads from outside the two globals: the configuration, the environment
  variable \<^verbatim>\<open>SSL_ENABLED\<close> and the result of \<^verbatim>\<open>datetime.utcnow().isoformat()\<close>.
\<close>

record env =
  service_name :: string
  api_port :: int
  ssl_enabled_var :: string
  utcnow :: string

text \<open>The value handed to \<^verbatim>\<open>jsonify\<close> and the status code.\<close>

record response =
  status :: nat
  payload :: pyval

text \<open>
  A handler returns the state it leaves and either a response or the exception that
  escapes it (which Flask answers with 500).
\<close>

type_synonym outcome = "state \<times> (py_error + response)"

definition jsonify :: "(string \<times> pyval) list \<Rightarrow> nat \<Rightarrow> py_error + response" where
  "jsonify kvs code = Inr \<lparr>status = code, payload = PDict (map (\<lambda>(k, v). (KStr k, v)) kvs)\<rparr>"

section \<open>The handlers\<close>

definition root :: "env \<Rightarrow> state \<Rightarrow> outcome" where
  "root e s =
     (s, jsonify
       [(''service'', PStr (service_name e)),
        (''version'', PStr ''1.0.0''),
        (''timestamp'', PStr (utcnow e)),
        (''endpoints'', PList [PStr ''/health'', PStr ''/api/sensors'',
           PStr ''/api/sensors/data'', PStr ''/api/devices'', PStr ''/api/system/info''])]
       200)"

definition health_check :: "env \<Rightarrow> state \<Rightarrow> outcome" where
  "health_check e s =
     (s, jsonify
       [(''status'', PStr ''healthy''),
        (''service'', PStr (service_name e)),
        (''timestamp'', PStr (utcnow e))]
       200)"

definition get_sensors :: "env \<Rightarrow> state \<Rightarrow> outcome" where
  "get_sensors e s =
     (s, jsonify
       [(''sensors'', devices_val (device_status s)),
        (''timestamp'', PStr (utcnow e))]
       200)"

text \<open>\<^verbatim>\<open>sensor_data[-100:]\<close>.\<close>

definition last_100 :: "'a list \<Rightarrow> 'a list" where
  "last_100 xs = drop (length xs - 100) xs"

text \<open>
  Lines 89 to 91: the update of the device record. The left operand of \<^verbatim>\<open>and\<close> guards
  the subscript on its right.
\<close>

definition update_device_status :: "pyval \<Rightarrow> state \<Rightarrow> py_error + state" where
  "update_device_status data s =
     (case py_contains ''sensor_type'' data of
        Inl e \<Rightarrow> Inl e
      | Inr False \<Rightarrow> Inr s
      | Inr True \<Rightarrow>
          (case py_getitem data ''sensor_type'' of
             Inl e \<Rightarrow> Inl e
           | Inr st \<Rightarrow>
               (case in_device_status st (device_status s) of
                  Inl e \<Rightarrow> Inl e
                | Inr False \<Rightarrow> Inr s
                | Inr True \<Rightarrow>
                    (case (st, py_get data ''value'') of
                       (PStr dev_id, Inr v) \<Rightarrow>
                         (case map_of (device_status s) dev_id of
                            None \<Rightarrow> Inl KeyError
                          | Some d \<Rightarrow>
                              Inr (s\<lparr>device_status :=
                                AList.update dev_id
                                  (dict_setitem (dict_setitem d (KStr ''last_reading'') v)
                                     (KStr ''status'') (PStr ''online''))
                                  (device_status s)\<rparr>))
                     | (_, Inl e) \<Rightarrow> Inl e
                     | (_, Inr v) \<Rightarrow> Inl KeyError))))"

definition sensor_data_endpoint :: "env \<Rightarrow> request \<Rightarrow> state \<Rightarrow> outcome" where
  "sensor_data_endpoint e req s =
     (if req_method req = GET then
        (s, jsonify
          [(''data'', PList (last_100 (sensor_data s))),
           (''count'', PInt (int (length (sensor_data s)))),
           (''timestamp'', PStr (utcnow e))]
          200)
      else if req_method req = POST then
        (let data = get_json (req_body req) in
         if \<not> truthy data then (s, jsonify [(''error'', PStr ''No data provided'')] 400)
         else
           (case py_contains ''timestamp'' data of
              Inl err \<Rightarrow> (s, Inl err)
            | Inr has_ts \<Rightarrow>
                (case (if has_ts then Inr data
                       else py_setitem data ''timestamp'' (PStr (utcnow e))) of
                   Inl err \<Rightarrow> (s, Inl err)
                 | Inr data' \<Rightarrow>
                     (let s1 = s\<lparr>sensor_data := sensor_data s @ [data']\<rparr> in
                      case update_device_status data' s1 of
                        Inl err \<Rightarrow> (s1, Inl err)
                      | Inr s2 \<Rightarrow>
                          (s2, jsonify [(''success'', PBool True), (''data'', data')] 201)))))
      else (s, Inl TypeError))"

definition get_devices :: "env \<Rightarrow> state \<Rightarrow> outcome" where
  "get_devices e s =
     (case online_devices (device_status s) of
        Inl err \<Rightarrow> (s, Inl err)
      | Inr n \<Rightarrow>
          (s, jsonify
            [(''devices'', devices_val (device_status s)),
             (''total_devices'', PInt (int (length (device_status s)))),
             (''online_devices'', PInt (int n)),
             (''timestamp'', PStr (utcnow e))]
            200))"

definition device_endpoint :: "env \<Rightarrow> string \<Rightarrow> request \<Rightarrow> state \<Rightarrow> outcome" where
  "device_endpoint e device_id req s =
     (case map_of (device_status s) device_id of
        None \<Rightarrow> (s, jsonify [(''error'', PStr ''Device not found'')] 404)
      | Some dev \<Rightarrow>
          if req_method req = GET then
            (s, jsonify
              [(''device_id'', PStr device_id),
               (''device'', PDict dev),
               (''timestamp'', PStr (utcnow e))]
              200)
          else if req_method req = PUT then
            (let data = get_json (req_body req) in
             if \<not> truthy data then (s, jsonify [(''error'', PStr ''No data provided'')] 400)
             else
               (let (dev', err) = dict_update dev data;
                    s' = s\<lparr>device_status := AList.update device_id dev' (device_status s)\<rparr>
                in case err of
                     Some ex \<Rightarrow> (s', Inl ex)
                   | None \<Rightarrow>
                       (s', jsonify
                         [(''success'', PBool True),
                          (''device_id'', PStr device_id),
                          (''device'', PDict dev')]
                         200)))
          else (s, Inl TypeError))"

text \<open>\<^verbatim>\<open>str.lower\<close> on the letters that matter for the comparison with \<^verbatim>\<open>'true'\<close>.\<close>

definition lower_char :: "char \<Rightarrow> char" where
  "lower_char c =
     (if c = CHR ''T'' then CHR ''t'' else if c = CHR ''R'' then CHR ''r''
      else if c = CHR ''U'' then CHR ''u'' else if c = CHR ''E'' then CHR ''e'' else c)"

definition system_info :: "env \<Rightarrow> state \<Rightarrow> outcome" where
  "system_info e s =
     (case online_devices (device_status s) of
        Inl err \<Rightarrow> (s, Inl err)
      | Inr n \<Rightarrow>
          (s, jsonify
            [(''system'', PDict
                [(KStr ''service'', PStr (service_name e)),
                 (KStr ''uptime'', PStr ''Running''),
                 (KStr ''version'', PStr ''1.0.0''),
                 (KStr ''api_port'', PInt (api_port e)),
                 (KStr ''ssl_enabled'',
                    PBool (map lower_char (ssl_enabled_var e) = ''true''))]),
             (''statistics'', PDict
                [(KStr ''total_sensor_readings'', PInt (int (length (sensor_data s)))),
                 (KStr ''total_devices'', PInt (int (length (device_status s)))),
                 (KStr ''online_devices'', PInt (int n))]),
             (''timestamp'', PStr (utcnow e))]
            200))"

text \<open>
  The outbound \<^verbatim>\<open>requests.get('http://web-backend:80/health', timeout=5)\<close>: it raises
  an exception, given here by its \<^verbatim>\<open>str()\<close>, or returns a response with a status code
  and an elapsed time in seconds.
\<close>

datatype peer_result = PeerRaises string | PeerResponse int pyfloat

definition communicate_with_services :: "env \<Rightarrow> peer_result \<Rightarrow> state \<Rightarrow> outcome" where
  "communicate_with_services e peer s =
     (case peer of
        PeerResponse status_code elapsed \<Rightarrow>
          (s, jsonify
            [(''service_communication'', PDict
                [(KStr ''web_backend'', PDict
                    [(KStr ''status'',
                        PStr (if status_code = 200 then ''healthy'' else ''unhealthy'')),
                     (KStr ''response_time'', PFloat elapsed)]),
                 (KStr ''portainer'', PDict [(KStr ''status'', PStr ''accessible'')])]),
             (''timestamp'', PStr (utcnow e))]
            200)
      | PeerRaises msg \<Rightarrow>
          (s, jsonify
            [(''error'', PStr ''Communication failed''),
             (''details'', PStr msg),
             (''timestamp'', PStr (utcnow e))]
            500))"

text \<open>One call of a handler, as the routes of the application dispatch it.\<close>

datatype call =
    Root
  | Health
  | Sensors
  | SensorData request
  | Devices
  | Device string request
  | SystemInfo
  | Communicate peer_result

fun handle :: "env \<Rightarrow> call \<Rightarrow> state \<Rightarrow> outcome" where
  "handle e Root s = root e s"
| "handle e Health s = health_check e s"
| "handle e Sensors s = get_sensors e s"
| "handle e (SensorData req) s = sensor_data_endpoint e req s"
| "handle e Devices s = get_devices e s"
| "handle e (Device device_id req) s = device_endpoint e device_id req s"
| "handle e SystemInfo s = system_info e s"
| "handle e (Communicate peer) s = communicate_with_services e peer s"

section \<open>Notions used to state the properties\<close>

text \<open>Lines 83 and 84 on a dict: the timestamp is added only when the key is missing.\<close>

definition stamp :: "string \<Rightarrow> pydict \<Rightarrow> pydict" where
  "stamp now d = (if dict_contains d (KStr ''timestamp'') then d
                  else dict_setitem d (KStr ''timestamp'') (PStr now))"

text \<open>
  What a POST that is answered 201 has appended: a dict with its timestamp, any other
  value as it came.
\<close>

definition stored_reading :: "string \<Rightarrow> pyval \<Rightarrow> pyval" where
  "stored_reading now data = (case data of PDict d \<Rightarrow> PDict (stamp now d) | _ \<Rightarrow> data)"

text \<open>
  A run of POSTs to \<^verbatim>\<open>/api/sensors/data\<close>, each with its own clock reading and body,
  every one of them answered 201; \<open>None\<close> as soon as one is not.
\<close>

fun post_all :: "(env \<times> body) list \<Rightarrow> state \<Rightarrow> state option" where
  "post_all [] s = Some s"
| "post_all ((e, b) # posts) s =
     (case sensor_data_endpoint e \<lparr>req_method = POST, req_body = b\<rparr> s of
        (s', Inr r) \<Rightarrow> if status r = 201 then post_all posts s' else None
      | (s', Inl err) \<Rightarrow> None)"







fun timestamp_of :: "pyval \<Rightarrow> pyval option" where
  "timestamp_of (PDict d) = dict_lookup d (KStr ''timestamp'')"
| "timestamp_of _ = None"

text \<open>A stored reading that is an object carries a \<^verbatim>\<open>timestamp\<close> key.\<close>

fun reading_stamped :: "pyval \<Rightarrow> bool" where
  "reading_stamped (PDict d) = dict_contains d (KStr ''timestamp'')"
| "reading_stamped _ = True"

definition readings_stamped :: "state \<Rightarrow> bool" where
  "readings_stamped s = list_all reading_stamped (sensor_data s)"

text \<open>Concrete inputs: a configuration with a clock reading, and the reading of the spec.\<close>

definition example_env :: env where
  "example_env = \<lparr>service_name = ''ServicePi IoT'', api_port = 8080,
     ssl_enabled_var = ''false'', utcnow = ''2024-01-15T10:30:00.000000''\<rparr>"

definition example_reading :: pydict where
  "example_reading =
     [(KStr ''sensor_type'', PStr ''temperature_sensor''),
      (KStr ''value'', PFloat (Finite (4236198399495373 / 140737488355328)))]"

section \<open>Facts about dicts\<close>

lemma dict_lookup_setitem:
  "dict_lookup (dict_setitem d k v) k' = (if key_eq k k' then Some v else dict_lookup d k')"
  by (induction d) (auto simp: key_eq_def)



lemma dict_contains_setitem:
  "dict_contains (dict_setitem d k v) k' \<longleftrightarrow> key_eq k k' \<or> dict_contains d k'"
  by (simp add: dict_contains_def dict_lookup_setitem)













lemma dict_lookup_stamp:
  "\<not> key_eq (KStr ''timestamp'') k \<Longrightarrow> dict_lookup (stamp now d) k = dict_lookup d k"
  by (simp add: stamp_def dict_lookup_setitem)

lemma timestamp_of_stamp:
  "dict_lookup (stamp now d) (KStr ''timestamp'') =
     Some (case dict_lookup d (KStr ''timestamp'') of None \<Rightarrow> PStr now | Some t \<Rightarrow> t)"
  by (auto simp: stamp_def dict_contains_def dict_lookup_setitem key_eq_def)

section \<open>Facts about the handlers\<close>

lemma keys_update_present:
  "map_of al k = Some d \<Longrightarrow> map fst (AList.update k v al) = map fst al"
  by (simp add: update_keys) (metis domI dom_map_of_conv_image_fst image_set)

lemma update_device_status_frame:
  assumes "update_device_status data s = Inr s'"
  shows "map fst (device_status s') = map fst (device_status s) \<and> sensor_data s' = sensor_data s"
  using assms unfolding update_device_status_def
  by (auto split: sum.splits bool.splits pyval.splits option.splits prod.splits simp: keys_update_present)

lemma update_device_status_known:
  assumes "dict_lookup d (KStr ''sensor_type'') = Some (PStr dev_id)"
    and "map_of (device_status s) dev_id = Some r"
  shows "update_device_status (PDict d) s =
     Inr (s\<lparr>device_status := AList.update dev_id
        (dict_setitem (dict_setitem r (KStr ''last_reading'')
            (case dict_lookup d (KStr ''value'') of None \<Rightarrow> PNone | Some v \<Rightarrow> v))
          (KStr ''status'') (PStr ''online''))
        (device_status s)\<rparr>)"
  using assms by (simp add: update_device_status_def dict_contains_def in_device_status_def)

lemma update_device_status_no_sensor_type:
  "\<not> dict_contains d (KStr ''sensor_type'') \<Longrightarrow> update_device_status (PDict d) s = Inr s"
  by (simp add: update_device_status_def)

lemma post_dict:
  assumes "get_json b = PDict d" "d \<noteq> []"
  shows "sensor_data_endpoint e \<lparr>req_method = POST, req_body = b\<rparr> s =
     (let s1 = s\<lparr>sensor_data := sensor_data s @ [PDict (stamp (utcnow e) d)]\<rparr> in
      case update_device_status (PDict (stamp (utcnow e) d)) s1 of
        Inl err \<Rightarrow> (s1, Inl err)
      | Inr s2 \<Rightarrow> (s2, jsonify [(''success'', PBool True), (''data'', PDict (stamp (utcnow e) d))] 201))"
  using assms
  by (cases "dict_contains d (KStr ''timestamp'')")
     (simp_all add: sensor_data_endpoint_def stamp_def Let_def split: sum.splits)

lemma post_dict_readings:
  assumes "get_json b = PDict d" "d \<noteq> []"
  shows "sensor_data (fst (sensor_data_endpoint e \<lparr>req_method = POST, req_body = b\<rparr> s)) =
     sensor_data s @ [PDict (stamp (utcnow e) d)]"
  by (auto simp: post_dict [OF assms] Let_def split: sum.splits
      dest!: update_device_status_frame)

lemma post_success_appends:
  assumes "sensor_data_endpoint e \<lparr>req_method = POST, req_body = b\<rparr> s = (s', Inr r)"
    and "status r = 201"
  shows "sensor_data s' = sensor_data s @ [stored_reading (utcnow e) (get_json b)]"
  using assms
  by (cases "get_json b")
     (auto simp: sensor_data_endpoint_def Let_def jsonify_def stored_reading_def stamp_def
       split: sum.splits if_splits dest!: update_device_status_frame)

lemma post_all_readings:
  "post_all posts s = Some s' \<Longrightarrow>
     sensor_data s' =
       sensor_data s @ map (\<lambda>(e, b). stored_reading (utcnow e) (get_json b)) posts"
proof (induction posts arbitrary: s)
  case Nil
  then show ?case by simp
next
  case (Cons p posts)
  obtain e b where p: "p = (e, b)" by (cases p)
  from Cons.prems p obtain s1 r where
    step: "sensor_data_endpoint e \<lparr>req_method = POST, req_body = b\<rparr> s = (s1, Inr r)"
      "status r = 201" and rest: "post_all posts s1 = Some s'"
    by (auto split: prod.splits sum.splits if_splits)
  from post_success_appends [OF step] Cons.IH [OF rest] p show ?case by simp
qed

lemma post_all_replicate:
  assumes "get_json b = PDict d" "d \<noteq> []"
    and "\<not> dict_contains (stamp (utcnow e) d) (KStr ''sensor_type'')"
  shows "post_all (replicate n (e, b)) s =
     Some (s\<lparr>sensor_data := sensor_data s @ replicate n (PDict (stamp (utcnow e) d))\<rparr>)"
proof (induction n arbitrary: s)
  case 0
  then show ?case by simp
next
  case (Suc n)
  have "sensor_data_endpoint e \<lparr>req_method = POST, req_body = b\<rparr> s =
      (s\<lparr>sensor_data := sensor_data s @ [PDict (stamp (utcnow e) d)]\<rparr>,
       jsonify [(''success'', PBool True), (''data'', PDict (stamp (utcnow e) d))] 201)"
    by (simp add: post_dict [OF assms(1,2)] Let_def
        update_device_status_no_sensor_type [OF assms(3)])
  then show ?case
    by (simp add: Suc.IH jsonify_def replicate_app_Cons_same)
qed

lemma handle_keys:
  "map fst (device_status (fst (handle e c s))) = map fst (device_status s)"
proof (cases c)
  case (SensorData req)
  then show ?thesis
    by (auto simp: sensor_data_endpoint_def Let_def jsonify_def
        split: sum.splits if_splits dest!: update_device_status_frame)
next
  case (Device device_id req)
  then show ?thesis
    by (auto simp: device_endpoint_def Let_def jsonify_def keys_update_present
        split: option.splits prod.splits)
qed (simp_all add: root_def health_check_def get_sensors_def get_devices_def system_info_def
    communicate_with_services_def split: sum.splits peer_result.splits)

lemma device_endpoint_readings:
  "sensor_data (fst (device_endpoint e device_id req s)) = sensor_data s"
  by (simp add: device_endpoint_def Let_def split: option.splits prod.splits)

lemma py_setitem_stamped: "py_setitem data ''timestamp'' v = Inr data' \<Longrightarrow> reading_stamped data'"
  by (cases data) (auto simp: dict_contains_setitem key_eq_def)

lemma py_contains_stamped: "py_contains ''timestamp'' data = Inr True \<Longrightarrow> reading_stamped data"
  by (cases data) auto

lemma sensor_data_endpoint_stamped:
  assumes "readings_stamped s"
  shows "readings_stamped (fst (sensor_data_endpoint e req s))"
  using assms
  by (auto simp: sensor_data_endpoint_def Let_def readings_stamped_def
      split: sum.splits if_splits bool.splits
      dest!: update_device_status_frame py_setitem_stamped py_contains_stamped)

lemma handle_stamped:
  "readings_stamped s \<Longrightarrow> readings_stamped (fst (handle e c s))"
proof (cases c)
  case (SensorData req)
  assume "readings_stamped s"
  with SensorData show ?thesis by (simp add: sensor_data_endpoint_stamped)
next
  case (Device device_id req)
  assume "readings_stamped s"
  with Device show ?thesis by (simp add: readings_stamped_def device_endpoint_readings)
qed (simp_all add: root_def health_check_def get_sensors_def get_devices_def system_info_def
    communicate_with_services_def split: sum.splits peer_result.splits)


section \<open>The reading sequence\<close>

text \<open>
  C1: after N POSTs to \<^verbatim>\<open>/api/sensors/data\<close> that were all answered 201, starting from
  an empty reading sequence, \<^verbatim>\<open>GET /api/sensors/data\<close> returns the last min(N, 100)
  stored readings in the order they were posted, and \<^verbatim>\<open>count\<close> is N.
\<close>

theorem get_after_posts:
  assumes "sensor_data s = []" and "post_all posts s = Some s'"
  shows "sensor_data_endpoint e \<lparr>req_method = GET, req_body = b\<rparr> s' =
      (s', Inr \<lparr>status = 200, payload = PDict
         [(KStr ''data'', PList (drop (length posts - 100)
              (map (\<lambda>(e, b). stored_reading (utcnow e) (get_json b)) posts))),
          (KStr ''count'', PInt (int (length posts))),
          (KStr ''timestamp'', PStr (utcnow e))]\<rparr>)
    \<and> length (drop (length posts - 100)
          (map (\<lambda>(e, b). stored_reading (utcnow e) (get_json b)) posts))
        = min (length posts) 100"
  using post_all_readings [OF assms(2)] assms(1)
  by (simp add: sensor_data_endpoint_def jsonify_def last_100_def)

text \<open>150 POSTs: the count is 150 and 100 readings come back.\<close>

theorem get_after_posts_witness:
  "sensor_data initial_state = []
   \<and> post_all (replicate 150 (example_env, JsonBody (PDict [(KStr ''value'', PInt 7)])))
        initial_state =
      Some (initial_state\<lparr>sensor_data := replicate 150
        (PDict [(KStr ''value'', PInt 7),
                (KStr ''timestamp'', PStr ''2024-01-15T10:30:00.000000'')])\<rparr>)
   \<and> sensor_data_endpoint example_env \<lparr>req_method = GET, req_body = NoBody\<rparr>
        (initial_state\<lparr>sensor_data := replicate 150
          (PDict [(KStr ''value'', PInt 7),
                  (KStr ''timestamp'', PStr ''2024-01-15T10:30:00.000000'')])\<rparr>) =
      (initial_state\<lparr>sensor_data := replicate 150
          (PDict [(KStr ''value'', PInt 7),
                  (KStr ''timestamp'', PStr ''2024-01-15T10:30:00.000000'')])\<rparr>,
       Inr \<lparr>status = 200, payload = PDict
         [(KStr ''data'', PList (replicate 100
              (PDict [(KStr ''value'', PInt 7),
                      (KStr ''timestamp'', PStr ''2024-01-15T10:30:00.000000'')]))),
          (KStr ''count'', PInt 150),
          (KStr ''timestamp'', PStr ''2024-01-15T10:30:00.000000'')]\<rparr>)"
proof -
  have now: "utcnow example_env = ''2024-01-15T10:30:00.000000''"
    by (simp add: example_env_def)
  have stamped: "stamp (utcnow example_env) [(KStr ''value'', PInt 7)] =
      [(KStr ''value'', PInt 7), (KStr ''timestamp'', PStr ''2024-01-15T10:30:00.000000'')]"
    by (simp add: now stamp_def dict_contains_def key_eq_def)
  have fresh: "sensor_data initial_state = []"
    by (simp add: initial_state_def)
  have posts: "post_all (replicate 150 (example_env, JsonBody (PDict [(KStr ''value'', PInt 7)])))
        initial_state =
      Some (initial_state\<lparr>sensor_data := replicate 150
        (PDict [(KStr ''value'', PInt 7),
                (KStr ''timestamp'', PStr ''2024-01-15T10:30:00.000000'')])\<rparr>)"
    using post_all_replicate [where b = "JsonBody (PDict [(KStr ''value'', PInt 7)])"
        and d = "[(KStr ''value'', PInt 7)]" and e = example_env and n = 150
        and s = initial_state]
    by (simp add: stamped fresh dict_contains_def key_eq_def)
  show ?thesis
    using get_after_posts [OF fresh posts, where e = example_env and b = NoBody] fresh posts
    by (simp add: stored_reading_def stamped [unfolded now] now)
qed

text \<open>
  A POST whose body is the JSON array \<^verbatim>\<open>["timestamp"]\<close> passes the test of line 83,
  is appended and answered 201: the stored reading is an array and has no field.
\<close>

theorem post_array_body_counterexample:
  "sensor_data_endpoint example_env
      \<lparr>req_method = POST, req_body = JsonBody (PList [PStr ''timestamp''])\<rparr> initial_state =
     (initial_state\<lparr>sensor_data := [PList [PStr ''timestamp'']]\<rparr>,
      Inr \<lparr>status = 201, payload = PDict
        [(KStr ''success'', PBool True), (KStr ''data'', PList [PStr ''timestamp''])]\<rparr>)
   \<and> timestamp_of (PList [PStr ''timestamp'']) = None"
  by (simp add: sensor_data_endpoint_def update_device_status_def initial_state_def
      jsonify_def Let_def)

text \<open>
  C5, amended: every stored reading that is a JSON object has a \<^verbatim>\<open>timestamp\<close> field.
  This holds at start and every handler preserves it. A POST with a non-empty object
  body appends that object with its \<^verbatim>\<open>timestamp\<close> equal to the clock reading when the
  client gave none and to the client's value otherwise, every other field as posted.
\<close>

theorem readings_keep_timestamp:
  "readings_stamped initial_state
   \<and> (readings_stamped s \<longrightarrow> readings_stamped (fst (handle e c s)))
   \<and> (get_json b = PDict d \<and> d \<noteq> [] \<longrightarrow>
        sensor_data (fst (sensor_data_endpoint e \<lparr>req_method = POST, req_body = b\<rparr> s)) =
          sensor_data s @ [PDict (stamp (utcnow e) d)]
        \<and> timestamp_of (PDict (stamp (utcnow e) d)) =
            Some (case dict_lookup d (KStr ''timestamp'') of
                    None \<Rightarrow> PStr (utcnow e) | Some t \<Rightarrow> t)
        \<and> (\<forall>k. \<not> key_eq (KStr ''timestamp'') k \<longrightarrow>
              dict_lookup (stamp (utcnow e) d) k = dict_lookup d k))"
  by (simp add: handle_stamped post_dict_readings timestamp_of_stamp dict_lookup_stamp)
     (simp add: readings_stamped_def initial_state_def)

theorem readings_keep_timestamp_witness:
  "readings_stamped initial_state
   \<and> readings_stamped (fst (handle example_env
        (SensorData \<lparr>req_method = POST, req_body = JsonBody (PDict example_reading)\<rparr>)
        initial_state))
   \<and> sensor_data (fst (sensor_data_endpoint example_env
        \<lparr>req_method = POST, req_body = JsonBody (PDict example_reading)\<rparr> initial_state)) =
      [PDict [(KStr ''sensor_type'', PStr ''temperature_sensor''),
              (KStr ''value'', PFloat (Finite (4236198399495373 / 140737488355328))),
              (KStr ''timestamp'', PStr ''2024-01-15T10:30:00.000000'')]]
   \<and> timestamp_of (PDict (stamp (utcnow example_env) example_reading)) =
        Some (PStr ''2024-01-15T10:30:00.000000'')
   \<and> sensor_data (fst (sensor_data_endpoint example_env
        \<lparr>req_method = POST, req_body = JsonBody (PDict [(KStr ''timestamp'', PStr ''noon'')])\<rparr>
        initial_state)) =
      [PDict [(KStr ''timestamp'', PStr ''noon'')]]
   \<and> timestamp_of (PDict (stamp (utcnow example_env) [(KStr ''timestamp'', PStr ''noon'')])) =
        Some (PStr ''noon'')"
proof -
  have now: "utcnow example_env = ''2024-01-15T10:30:00.000000''"
    by (simp add: example_env_def)
  have fresh: "sensor_data initial_state = []"
    by (simp add: initial_state_def)
  have s1: "stamp ''2024-01-15T10:30:00.000000'' example_reading =
      [(KStr ''sensor_type'', PStr ''temperature_sensor''),
       (KStr ''value'', PFloat (Finite (4236198399495373 / 140737488355328))),
       (KStr ''timestamp'', PStr ''2024-01-15T10:30:00.000000'')]"
    by (simp add: stamp_def example_reading_def dict_contains_def key_eq_def)
  have s2: "stamp ''2024-01-15T10:30:00.000000'' [(KStr ''timestamp'', PStr ''noon'')] =
      [(KStr ''timestamp'', PStr ''noon'')]"
    by (simp add: stamp_def dict_contains_def key_eq_def)
  have ne: "example_reading \<noteq> []"
    by (simp add: example_reading_def)
  have l1: "dict_lookup example_reading (KStr ''timestamp'') = None"
    by (simp add: example_reading_def key_eq_def)
  show ?thesis
    using readings_keep_timestamp [where s = initial_state and e = example_env
        and c = "SensorData \<lparr>req_method = POST, req_body = JsonBody (PDict example_reading)\<rparr>"
        and b = "JsonBody (PDict example_reading)" and d = example_reading]
      readings_keep_timestamp [where s = initial_state and e = example_env
        and c = "SensorData \<lparr>req_method = POST, req_body = JsonBody (PDict example_reading)\<rparr>"
        and b = "JsonBody (PDict [(KStr ''timestamp'', PStr ''noon'')])"
        and d = "[(KStr ''timestamp'', PStr ''noon'')]"]
    by (simp add: now fresh s1 s2 ne l1 key_eq_def)
qed

section \<open>The device map\<close>



text \<open>
  C10: when the body names a known device in \<^verbatim>\<open>sensor_type\<close> and has no \<^verbatim>\<open>value\<close>,
  the POST is answered 201 and the device's \<^verbatim>\<open>last_reading\<close> becomes \<^verbatim>\<open>None\<close>.
\<close>

theorem post_without_value_sets_none:
  assumes "get_json b = PDict d"
    and "dict_lookup d (KStr ''sensor_type'') = Some (PStr dev_id)"
    and "map_of (device_status s) dev_id = Some r"
    and "dict_lookup d (KStr ''value'') = None"
  shows "\<exists>s' r'.
      sensor_data_endpoint e \<lparr>req_method = POST, req_body = b\<rparr> s =
        (s', Inr \<lparr>status = 201, payload = PDict
           [(KStr ''success'', PBool True),
            (KStr ''data'', PDict (stamp (utcnow e) d))]\<rparr>)
      \<and> map_of (device_status s') dev_id = Some r'
      \<and> dict_lookup r' (KStr ''last_reading'') = Some PNone
      \<and> dict_lookup r' (KStr ''status'') = Some (PStr ''online'')"
proof -
  from assms(2) have nonempty: "d \<noteq> []" by auto
  let ?d = "stamp (utcnow e) d"
  let ?s1 = "s\<lparr>sensor_data := sensor_data s @ [PDict ?d]\<rparr>"
  let ?r = "dict_setitem (dict_setitem r (KStr ''last_reading'') PNone)
              (KStr ''status'') (PStr ''online'')"
  let ?s2 = "?s1\<lparr>device_status := AList.update dev_id ?r (device_status ?s1)\<rparr>"
  have st: "dict_lookup ?d (KStr ''sensor_type'') = Some (PStr dev_id)"
    using assms(2) by (simp add: dict_lookup_stamp key_eq_def)
  have val: "dict_lookup ?d (KStr ''value'') = None"
    using assms(4) by (simp add: dict_lookup_stamp key_eq_def)
  have known: "map_of (device_status ?s1) dev_id = Some r"
    using assms(3) by simp
  have upd: "update_device_status (PDict ?d) ?s1 = Inr ?s2"
    using update_device_status_known [OF st known] val by simp
  have post: "sensor_data_endpoint e \<lparr>req_method = POST, req_body = b\<rparr> s =
      (?s2, Inr \<lparr>status = 201, payload = PDict
           [(KStr ''success'', PBool True), (KStr ''data'', PDict ?d)]\<rparr>)"
    using upd by (simp add: post_dict [OF assms(1) nonempty] Let_def jsonify_def)
  have rec: "map_of (device_status ?s2) dev_id = Some ?r"
    by (simp add: update_conv')
  have lr: "dict_lookup ?r (KStr ''last_reading'') = Some PNone"
    by (simp add: dict_lookup_setitem key_eq_def)
  have on: "dict_lookup ?r (KStr ''status'') = Some (PStr ''online'')"
    by (simp add: dict_lookup_setitem key_eq_def)
  from post rec lr on show ?thesis by blast
qed

theorem post_without_value_sets_none_witness:
  "get_json (JsonBody (PDict [(KStr ''sensor_type'', PStr ''humidity_sensor'')])) =
      PDict [(KStr ''sensor_type'', PStr ''humidity_sensor'')]
   \<and> dict_lookup [(KStr ''sensor_type'', PStr ''humidity_sensor'')] (KStr ''sensor_type'') =
        Some (PStr ''humidity_sensor'')
   \<and> map_of (device_status initial_state) ''humidity_sensor'' =
        Some [(KStr ''status'', PStr ''online''),
              (KStr ''last_reading'', PFloat (Finite (4588042120383693 / 70368744177664))),
              (KStr ''unit'', PStr ''%'')]
   \<and> dict_lookup [(KStr ''sensor_type'', PStr ''humidity_sensor'')] (KStr ''value'') = None
   \<and> (\<exists>s' r'.
      sensor_data_endpoint example_env
          \<lparr>req_method = POST,
           req_body = JsonBody (PDict [(KStr ''sensor_type'', PStr ''humidity_sensor'')])\<rparr>
          initial_state =
        (s', Inr \<lparr>status = 201, payload = PDict
           [(KStr ''success'', PBool True),
            (KStr ''data'', PDict (stamp (utcnow example_env)
               [(KStr ''sensor_type'', PStr ''humidity_sensor'')]))]\<rparr>)
      \<and> map_of (device_status s') ''humidity_sensor'' = Some r'
      \<and> dict_lookup r' (KStr ''last_reading'') = Some PNone
      \<and> dict_lookup r' (KStr ''status'') = Some (PStr ''online''))"
proof -
  let ?d = "[(KStr ''sensor_type'', PStr ''humidity_sensor'')]"
  have h1: "get_json (JsonBody (PDict ?d)) = PDict ?d"
    by simp
  have h2: "dict_lookup ?d (KStr ''sensor_type'') = Some (PStr ''humidity_sensor'')"
    by (simp add: key_eq_def)
  have h3: "map_of (device_status initial_state) ''humidity_sensor'' =
        Some [(KStr ''status'', PStr ''online''),
              (KStr ''last_reading'', PFloat (Finite (4588042120383693 / 70368744177664))),
              (KStr ''unit'', PStr ''%'')]"
    by (simp add: initial_state_def initial_device_status_def)
  have h4: "dict_lookup ?d (KStr ''value'') = None"
    by (simp add: key_eq_def)
  show ?thesis
    using post_without_value_sets_none [OF h1 h2 h3 h4, where e = example_env] h1 h2 h3 h4
    by simp
qed




text \<open>
  C6: no call of a handler changes the list of device identifiers, and a PUT addressed
  to an unknown identifier is answered 404 and changes nothing.
\<close>

theorem device_ids_never_created:
  "map fst (device_status (fst (handle e c s))) = map fst (device_status s)
   \<and> (map_of (device_status s) device_id = None \<longrightarrow>
        device_endpoint e device_id \<lparr>req_method = PUT, req_body = b\<rparr> s =
          (s, Inr \<lparr>status = 404, payload =
             PDict [(KStr ''error'', PStr ''Device not found'')]\<rparr>))"
  by (simp add: handle_keys) (simp add: device_endpoint_def jsonify_def)

theorem device_ids_never_created_witness:
  "map fst (device_status (fst (handle example_env
      (SensorData \<lparr>req_method = POST, req_body =
         JsonBody (PDict [(KStr ''sensor_type'', PStr ''pressure_sensor''),
                          (KStr ''value'', PInt 3)])\<rparr>) initial_state))) =
     [''temperature_sensor'', ''humidity_sensor'', ''motion_sensor'']
   \<and> map fst (device_status (fst (handle example_env
      (Device ''pressure_sensor'' \<lparr>req_method = PUT, req_body =
         JsonBody (PDict [(KStr ''status'', PStr ''online'')])\<rparr>) initial_state))) =
     [''temperature_sensor'', ''humidity_sensor'', ''motion_sensor'']
   \<and> map_of (device_status initial_state) ''pressure_sensor'' = None
   \<and> device_endpoint example_env ''pressure_sensor''
        \<lparr>req_method = PUT, req_body = JsonBody (PDict [(KStr ''status'', PStr ''online'')])\<rparr>
        initial_state =
      (initial_state, Inr \<lparr>status = 404, payload =
         PDict [(KStr ''error'', PStr ''Device not found'')]\<rparr>)"
proof -
  have keys: "map fst (device_status initial_state) =
      [''temperature_sensor'', ''humidity_sensor'', ''motion_sensor'']"
    by (simp add: initial_state_def initial_device_status_def)
  have unknown: "map_of (device_status initial_state) ''pressure_sensor'' = None"
    by (simp add: initial_state_def initial_device_status_def)
  show ?thesis
    using keys unknown
      device_ids_never_created [where e = example_env and s = initial_state
        and device_id = "''pressure_sensor''"
        and b = "JsonBody (PDict [(KStr ''status'', PStr ''online'')])"
        and c = "SensorData \<lparr>req_method = POST, req_body =
           JsonBody (PDict [(KStr ''sensor_type'', PStr ''pressure_sensor''),
                            (KStr ''value'', PInt 3)])\<rparr>"]
      device_ids_never_created [where e = example_env and s = initial_state
        and device_id = "''pressure_sensor''"
        and b = "JsonBody (PDict [(KStr ''status'', PStr ''online'')])"
        and c = "Device ''pressure_sensor'' \<lparr>req_method = PUT, req_body =
           JsonBody (PDict [(KStr ''status'', PStr ''online'')])\<rparr>"]
    by simp
qed



section \<open>Rejected input\<close>


text \<open>
  C8: when the outbound request of \<^verbatim>\<open>/api/system/communicate\<close> raises, whatever the
  exception, the answer is status 500 with an \<^verbatim>\<open>error\<close> field and the text of the
  exception, and the reading sequence and the device map are unchanged.
\<close>

theorem communicate_failure:
  "communicate_with_services e (PeerRaises msg) s =
     (s, Inr \<lparr>status = 500, payload = PDict
        [(KStr ''error'', PStr ''Communication failed''),
         (KStr ''details'', PStr msg),
         (KStr ''timestamp'', PStr (utcnow e))]\<rparr>)"
  by (simp add: communicate_with_services_def jsonify_def)

section \<open>Reads\<close>

text \<open>
  C9: every GET handler is read-only. From any state, \<^verbatim>\<open>GET /\<close>, \<^verbatim>\<open>/health\<close>,
  \<^verbatim>\<open>/api/sensors\<close>, \<^verbatim>\<open>/api/sensors/data\<close>, \<^verbatim>\<open>/api/devices\<close>, \<^verbatim>\<open>/api/devices/{id}\<close> and
  \<^verbatim>\<open>/api/system/info\<close> leave the reading sequence and the device map exactly as they
  were, also when the handler raises.
\<close>

theorem get_read_only:
  "fst (root e s) = s \<and> fst (health_check e s) = s \<and> fst (get_sensors e s) = s
   \<and> fst (sensor_data_endpoint e \<lparr>req_method = GET, req_body = b\<rparr> s) = s
   \<and> fst (get_devices e s) = s
   \<and> fst (device_endpoint e device_id \<lparr>req_method = GET, req_body = b\<rparr> s) = s
   \<and> fst (system_info e s) = s"
  by (simp add: root_def health_check_def get_sensors_def sensor_data_endpoint_def
      get_devices_def device_endpoint_def system_info_def split: sum.splits option.splits)

end
